theory Spec2Isabelle
  imports Complex_Main
begin

section \<open>The proxy monitor: data model\<close>

text \<open>
  The program (\<^verbatim>\<open>main.py\<close>) checks a list of proxies by a bounded-retry probe and
  pushes one status per proxy to a monitoring endpoint. Everything it does to the outside
  world (HTTP requests, sleeps, log records) is modelled as an event appended to a trace;
  everything the outside world answers is an argument of the model. A Python \<^verbatim>\<open>str\<close>
  is a \<^typ>\<open>string\<close>, one \<^typ>\<open>char\<close> standing for one code point below 256; Python's
  unbounded \<^verbatim>\<open>int\<close> is \<^typ>\<open>int\<close>; the two durations, which the program only hands on
  to the HTTP client and to \<^verbatim>\<open>asyncio.sleep\<close>, are \<^typ>\<open>real\<close>.
\<close>

record ProxyTarget =
  proxy :: string
  push_url :: string
  remark :: "string option"

record AppConfig =
  test_url :: string
  expected_status :: int
  retries :: int
  timeout_seconds :: real
  retry_delay_seconds :: real
  interval_minutes :: int
  targets :: "ProxyTarget list"

subsection \<open>What the network answers\<close>

text \<open>
  One run of the \<^verbatim>\<open>try\<close> block of \<^verbatim>\<open>test_once\<close> either gets to the response, with
  its status code and the elapsed milliseconds the code computes from the two clock
  readings, or leaves by an exception \<^verbatim>\<open>e\<close>, of which the code uses \<^verbatim>\<open>str(e)\<close> only.
\<close>

datatype probe_io = Completed int int | Raised string

text \<open>The push request of the notifier: a response with its status code, or an exception.\<close>

datatype push_io = PushResponse int | PushRaised string

subsection \<open>Exceptions\<close>

text \<open>
  The exceptions the program raises or meets: \<^verbatim>\<open>ValueError\<close> and \<^verbatim>\<open>KeyError\<close> with
  their message, the \<^verbatim>\<open>HTTPStatusError\<close> of \<^verbatim>\<open>raise_for_status\<close> with the status
  code, and any other exception of the HTTP client with its \<^verbatim>\<open>str\<close>.
\<close>

datatype exn = ValueError string | KeyError string | HTTPStatusError int | ClientError string

subsection \<open>What the program does\<close>

datatype level = DEBUG | INFO | WARNING | ERROR

text \<open>One constructor per logging call of the source, with the arguments of that call.\<close>

datatype logline =
    ProxyErrorLine string string
  | ErrorLine string string
  | OkLine string string int "int option"
  | FailedAttemptLine string string int int
  | FailedAfterRetriesLine string string
  | PushSentLine string
  | PushFailedLine exn
  | StartingCycleLine
  | SleepingLine int

text \<open>A query parameter of the push request is a Python \<^verbatim>\<open>str\<close> or \<^verbatim>\<open>int\<close>.\<close>

datatype param = PStr string | PInt int

datatype event =
    ProbeGet string string real
  | Sleep real
  | Log level logline
  | PushGet string "(string \<times> param) list"

fun is_ProbeGet :: "event \<Rightarrow> bool" where
  "is_ProbeGet (ProbeGet p u t) = True"
| "is_ProbeGet e = False"

fun is_Sleep :: "event \<Rightarrow> bool" where
  "is_Sleep (Sleep d) = True"
| "is_Sleep e = False"

fun is_PushGet :: "event \<Rightarrow> bool" where
  "is_PushGet (PushGet u ps) = True"
| "is_PushGet e = False"

section \<open>Proxy tester\<close>

text \<open>
  \<^verbatim>\<open>test_once\<close> returns the triple \<^verbatim>\<open>(ok, ping, err)\<close>. Every call leaves one
  \<^const>\<open>ProbeGet\<close> event, which stands for the probe attempt whatever its result; an
  exception may well come before the request is on the wire.
\<close>

definition test_once ::
  "AppConfig \<Rightarrow> string \<Rightarrow> probe_io \<Rightarrow> (bool \<times> int option \<times> string option) \<times> event list" where
  "test_once cfg prx io =
     (case io of
        Completed status_code elapsed_ms \<Rightarrow>
          (if status_code = expected_status cfg
           then (True, Some elapsed_ms, None)
           else (False, None, None),
           [ProbeGet prx (test_url cfg) (timeout_seconds cfg)])
      | Raised e \<Rightarrow>
          ((False, None, Some e),
           [ProbeGet prx (test_url cfg) (timeout_seconds cfg), Log DEBUG (ProxyErrorLine prx e)]))"

text \<open>
  The three outcomes of an attempt, as \<^verbatim>\<open>test_with_retries\<close> tells them apart:
  \<^verbatim>\<open>err is not None\<close> first, then \<^verbatim>\<open>ok\<close>, else an intermediate failure.
\<close>

datatype ProbeOutcome = Success "int option" | SoftFailure | HardError string

fun outcome :: "bool \<times> int option \<times> string option \<Rightarrow> ProbeOutcome" where
  "outcome (ok, ping, Some err) = HardError err"
| "outcome (True, ping, None) = Success ping"
| "outcome (False, ping, None) = SoftFailure"

text \<open>
  The body of the \<^verbatim>\<open>for attempt in range(1, retries + 1)\<close> loop, by recursion on the
  attempts still to make; the empty list is the code after the loop. \<open>net attempt\<close> is
  what the network answers to that attempt. The third component of the result is always a
  \<^verbatim>\<open>str\<close> in the source (\<^verbatim>\<open>str(err)\<close>, \<^verbatim>\<open>"OK"\<close> or \<^verbatim>\<open>"FAILED"\<close>).
\<close>

fun retry_loop ::
  "AppConfig \<Rightarrow> (int \<Rightarrow> probe_io) \<Rightarrow> string \<Rightarrow> string \<Rightarrow> int list
     \<Rightarrow> (bool \<times> int option \<times> string) \<times> event list" where
  "retry_loop cfg net prx name [] =
     ((False, None, ''FAILED''), [Log ERROR (FailedAfterRetriesLine name prx)])"
| "retry_loop cfg net prx name (attempt # rest) =
     (case test_once cfg prx (net attempt) of
        ((ok, ping, err), tr) \<Rightarrow>
          (case err of
             Some e \<Rightarrow> ((False, None, e), tr @ [Log ERROR (ErrorLine name e)])
           | None \<Rightarrow>
               if ok then ((True, ping, ''OK''), tr @ [Log INFO (OkLine name prx attempt ping)])
               else
                 (case retry_loop cfg net prx name rest of
                    (res, tr') \<Rightarrow>
                      (res,
                       tr @ [Log WARNING (FailedAttemptLine name prx attempt (retries cfg))]
                          @ (if attempt < retries cfg then [Sleep (retry_delay_seconds cfg)] else [])
                          @ tr'))))"

definition test_with_retries ::
  "AppConfig \<Rightarrow> (int \<Rightarrow> probe_io) \<Rightarrow> string \<Rightarrow> string
     \<Rightarrow> (bool \<times> int option \<times> string) \<times> event list" where
  "test_with_retries cfg net prx name = retry_loop cfg net prx name [1..retries cfg]"

text \<open>Counting the probe requests and collecting the delays of a trace.\<close>

definition probes :: "event list \<Rightarrow> nat" where
  "probes tr = length (filter is_ProbeGet tr)"

definition delays :: "event list \<Rightarrow> event list" where
  "delays tr = filter is_Sleep tr"

text \<open>An answer that makes the attempt an intermediate failure: a response with another status.\<close>

fun soft :: "AppConfig \<Rightarrow> probe_io \<Rightarrow> bool" where
  "soft cfg (Completed status_code elapsed_ms) = (status_code \<noteq> expected_status cfg)"
| "soft cfg (Raised e) = False"

text \<open>What a run of intermediate failures over the attempts \<open>as\<close> leaves in the trace.\<close>

definition soft_trace :: "AppConfig \<Rightarrow> string \<Rightarrow> string \<Rightarrow> int list \<Rightarrow> event list" where
  "soft_trace cfg prx name as =
     concat (map (\<lambda>a. [ProbeGet prx (test_url cfg) (timeout_seconds cfg),
                        Log WARNING (FailedAttemptLine name prx a (retries cfg))]
                       @ (if a < retries cfg then [Sleep (retry_delay_seconds cfg)] else [])) as)"


section \<open>Strings\<close>

text \<open>
  \<^verbatim>\<open>str.isspace\<close> on the code points below 256, and \<^verbatim>\<open>str.strip()\<close> with no
  argument, which removes such characters at both ends.
\<close>

definition py_isspace :: "char \<Rightarrow> bool" where
  "py_isspace c = ((of_char c :: nat) \<in> {9, 10, 11, 12, 13, 28, 29, 30, 31, 32, 133, 160})"

definition strip :: "string \<Rightarrow> string" where
  "strip s = rev (dropWhile py_isspace (rev (dropWhile py_isspace s)))"

text \<open>
  \<^verbatim>\<open>str.lower\<close> on the code points below 256: the letters A to Z and the accented
  capitals 192 to 222, the multiplication sign 215 apart, move up by 32.
\<close>

definition lower_char :: "char \<Rightarrow> char" where
  "lower_char c =
     (let n = (of_char c :: nat)
      in if (65 \<le> n \<and> n \<le> 90) \<or> (192 \<le> n \<and> n \<le> 222 \<and> n \<noteq> 215) then char_of (n + 32) else c)"

definition lower :: "string \<Rightarrow> string" where
  "lower s = map lower_char s"

text \<open>The decimal digits of a natural number, and \<^verbatim>\<open>str\<close> of an \<^verbatim>\<open>int\<close>.\<close>

fun digits :: "nat \<Rightarrow> string" where
  "digits n =
     (if n < 10 then [''0123456789'' ! n]
      else digits (n div 10) @ [''0123456789'' ! (n mod 10)])"

declare digits.simps [simp del]

definition str_int :: "int \<Rightarrow> string" where
  "str_int i = (if i < 0 then ''-'' @ digits (nat (- i)) else digits (nat i))"

section \<open>Notifier\<close>

text \<open>\<^verbatim>\<open>Response.raise_for_status\<close> of the HTTP client raises unless the status is 2xx.\<close>

definition raise_for_status :: "int \<Rightarrow> exn + unit" where
  "raise_for_status status_code =
     (if 200 \<le> status_code \<and> status_code \<le> 299 then Inr () else Inl (HTTPStatusError status_code))"

text \<open>
  The \<^verbatim>\<open>try\<close> block of \<^verbatim>\<open>send\<close> (the request, \<^verbatim>\<open>raise_for_status\<close>, the INFO line)
  and \<^verbatim>\<open>send\<close> itself, whose \<^verbatim>\<open>except Exception\<close> logs what the block raised. The
  result says whether the call raises to its caller.
\<close>

definition send_try ::
  "string \<Rightarrow> string \<Rightarrow> (string \<times> param) list \<Rightarrow> push_io \<Rightarrow> (exn + unit) \<times> event list" where
  "send_try url status params io =
     (case io of
        PushRaised e \<Rightarrow> (Inl (ClientError e), [PushGet url params])
      | PushResponse status_code \<Rightarrow>
          (case raise_for_status status_code of
             Inl e \<Rightarrow> (Inl e, [PushGet url params])
           | Inr u \<Rightarrow> (Inr (), [PushGet url params, Log INFO (PushSentLine status)])))"

definition send ::
  "string \<Rightarrow> string \<Rightarrow> string \<Rightarrow> int option \<Rightarrow> push_io \<Rightarrow> (exn + unit) \<times> event list" where
  "send url status message ping io =
     (let params = [(''status'', PStr status),
                    (''msg'', PStr message),
                    (''ping'', case ping of Some p \<Rightarrow> PInt p | None \<Rightarrow> PStr '''')]
      in case send_try url status params io of
           (Inl e, tr) \<Rightarrow> (Inr (), tr @ [Log ERROR (PushFailedLine e)])
         | (Inr u, tr) \<Rightarrow> (Inr (), tr))"

section \<open>App\<close>

text \<open>The identifier of \<^verbatim>\<open>check_target\<close>: the remark when it is truthy and not blank.\<close>

definition target_identifier :: "ProxyTarget \<Rightarrow> string" where
  "target_identifier target =
     (case remark target of
        Some r \<Rightarrow> if r \<noteq> [] \<and> strip r \<noteq> [] then r else proxy target
      | None \<Rightarrow> proxy target)"

definition final_message :: "string \<Rightarrow> bool \<times> int option \<times> string \<Rightarrow> string" where
  "final_message ident res =
     (case res of
        (ok, ping, message) \<Rightarrow>
          if ok then
            (let ping_str = (case ping of Some p \<Rightarrow> str_int p @ '' ms'' | None \<Rightarrow> '''')
             in ''OK : '' @ ident @ '' : OK ('' @ ping_str @ '')'')
          else if message = ''FAILED'' then ''FAILED : '' @ ident @ '' : FAILED''
          else ''ERROR : '' @ ident @ '' : '' @ message)"

definition check_target ::
  "AppConfig \<Rightarrow> (int \<Rightarrow> probe_io) \<Rightarrow> push_io \<Rightarrow> ProxyTarget \<Rightarrow> (exn + unit) \<times> event list" where
  "check_target cfg net pio target =
     (case test_with_retries cfg net (proxy target) (target_identifier target) of
        ((ok, ping, message), tr) \<Rightarrow>
          (case send (push_url target) (if ok then ''up'' else ''down'')
                  (final_message (target_identifier target) (ok, ping, message))
                  (if ok then ping else None) pio of
             (r, tr') \<Rightarrow> (r, tr @ tr')))"

text \<open>
  The terminal result of a target, as \<^verbatim>\<open>check_target\<close> tells the triple apart:
  \<^verbatim>\<open>ok\<close> first, then \<^verbatim>\<open>message == "FAILED"\<close>, else the error case, whose message
  is the error text.
\<close>

datatype TerminalResult = Up "int option" | Down_FAILED | Down_ERROR string

fun terminal :: "bool \<times> int option \<times> string \<Rightarrow> TerminalResult" where
  "terminal (ok, ping, message) =
     (if ok then Up ping else if message = ''FAILED'' then Down_FAILED else Down_ERROR message)"

text \<open>
  \<^verbatim>\<open>asyncio.gather\<close> over one \<^verbatim>\<open>check_target\<close> per target. The tasks share no state,
  so the cycle is modelled by the list of their traces, in the order of the targets and
  with no order between events of different tasks; \<open>net i\<close> and \<open>push i\<close> are what
  the network answers to the task of target \<open>i\<close>. The cycle raises what the first task
  that raised did.
\<close>

fun first_raised :: "(exn + unit) list \<Rightarrow> exn + unit" where
  "first_raised [] = Inr ()"
| "first_raised (Inl e # rs) = Inl e"
| "first_raised (Inr u # rs) = first_raised rs"

definition run_cycle ::
  "AppConfig \<Rightarrow> (nat \<Rightarrow> int \<Rightarrow> probe_io) \<Rightarrow> (nat \<Rightarrow> push_io) \<Rightarrow> (exn + unit) \<times> event list list" where
  "run_cycle cfg net push =
     (let rs = map (\<lambda>i. check_target cfg (net i) (push i) (targets cfg ! i))
                   [0 ..< length (targets cfg)]
      in (first_raised (map fst rs), map snd rs))"

text \<open>
  The \<^verbatim>\<open>while True\<close> loop of \<^verbatim>\<open>run\<close>, which need not end: \<open>None\<close> is a run that
  goes on for ever. \<open>c\<close> counts the cycles made and \<open>acc\<close> is the trace so far.
\<close>

datatype run_event = RunLog level logline | Cycle "event list list" | RunSleep int

partial_function (option) run_from ::
  "AppConfig \<Rightarrow> bool \<Rightarrow> (nat \<Rightarrow> nat \<Rightarrow> int \<Rightarrow> probe_io) \<Rightarrow> (nat \<Rightarrow> nat \<Rightarrow> push_io) \<Rightarrow> nat
     \<Rightarrow> run_event list \<Rightarrow> ((exn + unit) \<times> run_event list) option" where
  "run_from cfg run_once net push c acc =
     (case run_cycle cfg (net c) (push c) of
        (Inl e, trs) \<Rightarrow> Some (Inl e, acc @ [RunLog INFO StartingCycleLine, Cycle trs])
      | (Inr u, trs) \<Rightarrow>
          if run_once \<or> interval_minutes cfg \<le> 0
          then Some (Inr (), acc @ [RunLog INFO StartingCycleLine, Cycle trs])
          else run_from cfg run_once net push (Suc c)
                 (acc @ [RunLog INFO StartingCycleLine, Cycle trs,
                         RunLog INFO (SleepingLine (interval_minutes cfg)),
                         RunSleep (interval_minutes cfg * 60)]))"

declare run_from.simps [code]

definition run ::
  "AppConfig \<Rightarrow> bool \<Rightarrow> (nat \<Rightarrow> nat \<Rightarrow> int \<Rightarrow> probe_io) \<Rightarrow> (nat \<Rightarrow> nat \<Rightarrow> push_io)
     \<Rightarrow> ((exn + unit) \<times> run_event list) option" where
  "run cfg run_once net push = run_from cfg run_once net push 0 []"

section \<open>Config loading\<close>

definition ALLOWED_PROXY_SCHEMES :: "string set" where
  "ALLOWED_PROXY_SCHEMES = {''http'', ''https'', ''socks4'', ''socks5'', ''socks5h''}"

subsection \<open>The scheme that the URL parser of the standard library finds\<close>

text \<open>
  \<^verbatim>\<open>urlparse\<close> is \<^verbatim>\<open>urllib.parse.urlsplit\<close> followed by a split of the path that
  leaves the scheme alone. Of \<^verbatim>\<open>urlsplit\<close> the model keeps what decides the scheme and
  whether the call raises: leading C0 controls and spaces are dropped, tabs and line ends
  are removed everywhere, the text before the first colon is the scheme when it starts with
  an ASCII letter and consists of \<^verbatim>\<open>scheme_chars\<close>, and an authority part (after
  \<^verbatim>\<open>//\<close>, up to the first of \<^verbatim>\<open>/?#\<close>) with one kind of square bracket and not the
  other raises \<^verbatim>\<open>ValueError("Invalid IPv6 URL")\<close>. What the library does to an authority
  part with both brackets depends on the CPython release (nothing before 3.11.4, a check of
  the bracketed host with the \<^verbatim>\<open>ipaddress\<close> module from then on, a check of the whole
  authority part in later releases). That check is not code of this program and is the
  argument \<open>chk\<close>: on the authority part it answers \<open>None\<close> to accept it, or the
  message of the \<^verbatim>\<open>ValueError\<close> it raises.
\<close>

definition scheme_chars :: string where
  "scheme_chars = ''abcdefghijklmnopqrstuvwxyzABCDEFGHIJKLMNOPQRSTUVWXYZ0123456789+-.''"

definition ascii_alpha :: "char \<Rightarrow> bool" where
  "ascii_alpha c = (let n = (of_char c :: nat) in (65 \<le> n \<and> n \<le> 90) \<or> (97 \<le> n \<and> n \<le> 122))"

definition url_clean :: "string \<Rightarrow> string" where
  "url_clean url =
     filter (\<lambda>c. (of_char c :: nat) \<notin> {9, 13, 10}) (dropWhile (\<lambda>c. (of_char c :: nat) \<le> 32) url)"

definition split_scheme :: "string \<Rightarrow> string \<times> string" where
  "split_scheme url =
     (let pre = takeWhile (\<lambda>c. c \<noteq> CHR '':'') url
      in if CHR '':'' \<in> set url \<and> pre \<noteq> [] \<and> ascii_alpha (hd url)
            \<and> list_all (\<lambda>c. c \<in> set scheme_chars) pre
         then (lower pre, drop (length pre + 1) url)
         else ('''', url))"

definition splitnetloc :: "string \<Rightarrow> string" where
  "splitnetloc url = takeWhile (\<lambda>c. c \<notin> {CHR ''/'', CHR ''?'', CHR ''#''}) (drop 2 url)"

definition url_scheme :: "string \<Rightarrow> string" where
  "url_scheme url = fst (split_scheme (url_clean url))"

definition urlparse :: "(string \<Rightarrow> string option) \<Rightarrow> string \<Rightarrow> exn + string" where
  "urlparse chk url =
     (case split_scheme (url_clean url) of
        (scheme, rest) \<Rightarrow>
          if take 2 rest = ''//'' then
            (let netloc = splitnetloc rest
             in if (CHR ''['' \<in> set netloc \<and> CHR '']'' \<notin> set netloc)
                   \<or> (CHR '']'' \<in> set netloc \<and> CHR ''['' \<notin> set netloc)
                then Inl (ValueError ''Invalid IPv6 URL'')
                else if CHR ''['' \<in> set netloc \<and> CHR '']'' \<in> set netloc
                then (case chk netloc of Some m \<Rightarrow> Inl (ValueError m) | None \<Rightarrow> Inr scheme)
                else Inr scheme)
          else Inr scheme)"

definition validate_proxy_url :: "(string \<Rightarrow> string option) \<Rightarrow> string \<Rightarrow> exn + unit" where
  "validate_proxy_url chk prx =
     (case urlparse chk prx of
        Inl e \<Rightarrow> Inl e
      | Inr scheme \<Rightarrow>
          if lower scheme \<notin> ALLOWED_PROXY_SCHEMES
          then Inl (ValueError (''Unsupported proxy scheme: '' @ prx))
          else Inr ())"

subsection \<open>The document\<close>

text \<open>
  \<^verbatim>\<open>load_config\<close> works on the dictionary that \<^verbatim>\<open>json.load\<close> returns. The model
  takes that document typed as the two dataclasses annotate it: each key is absent
  (\<open>None\<close>) or holds a value of the annotated type, on which \<^verbatim>\<open>int(...)\<close> and
  \<^verbatim>\<open>float(...)\<close> change nothing; \<^verbatim>\<open>targets\<close> is a list of dictionaries with string
  values. Reading the file and parsing the JSON text come before and are not modelled.
\<close>

record raw_target =
  raw_proxy :: "string option"
  raw_push_url :: "string option"
  raw_remark :: "string option"

record raw_config =
  raw_test_url :: "string option"
  raw_expected_status :: "int option"
  raw_retries :: "int option"
  raw_timeout_seconds :: "real option"
  raw_retry_delay_seconds :: "real option"
  raw_interval_minutes :: "int option"
  raw_targets :: "raw_target list option"

definition required :: "string list" where
  "required = [''test_url'', ''expected_status'', ''retries'', ''timeout_seconds'',
               ''retry_delay_seconds'', ''interval_minutes'', ''targets'']"

text \<open>\<^verbatim>\<open>key in raw\<close>, and \<^verbatim>\<open>raw[key]\<close>, which raises \<^verbatim>\<open>KeyError\<close> on an absent key.\<close>

definition has_key :: "raw_config \<Rightarrow> string \<Rightarrow> bool" where
  "has_key raw key =
     (if key = ''test_url'' then raw_test_url raw \<noteq> None
      else if key = ''expected_status'' then raw_expected_status raw \<noteq> None
      else if key = ''retries'' then raw_retries raw \<noteq> None
      else if key = ''timeout_seconds'' then raw_timeout_seconds raw \<noteq> None
      else if key = ''retry_delay_seconds'' then raw_retry_delay_seconds raw \<noteq> None
      else if key = ''interval_minutes'' then raw_interval_minutes raw \<noteq> None
      else if key = ''targets'' then raw_targets raw \<noteq> None
      else False)"

definition getitem :: "'a option \<Rightarrow> string \<Rightarrow> exn + 'a" where
  "getitem v key = (case v of None \<Rightarrow> Inl (KeyError key) | Some x \<Rightarrow> Inr x)"

definition and_then :: "exn + 'a \<Rightarrow> ('a \<Rightarrow> exn + 'b) \<Rightarrow> exn + 'b" where
  "and_then r f = (case r of Inl e \<Rightarrow> Inl e | Inr x \<Rightarrow> f x)"

text \<open>The loop over \<^verbatim>\<open>required\<close>: the first absent key raises.\<close>

fun check_required :: "raw_config \<Rightarrow> string list \<Rightarrow> exn + unit" where
  "check_required raw [] = Inr ()"
| "check_required raw (key # keys) =
     (if \<not> has_key raw key then Inl (ValueError (''Missing config field: '' @ key))
      else check_required raw keys)"

text \<open>The loop over \<^verbatim>\<open>raw["targets"]\<close>; \<open>acc\<close> is the list \<^verbatim>\<open>targets\<close> built so far.\<close>

fun load_targets ::
  "(string \<Rightarrow> string option) \<Rightarrow> raw_target list \<Rightarrow> ProxyTarget list \<Rightarrow> exn + ProxyTarget list" where
  "load_targets chk [] acc = Inr acc"
| "load_targets chk (item # items) acc =
     (if raw_proxy item = None \<or> raw_push_url item = None
      then Inl (ValueError ''Each target must contain proxy and push_url'')
      else
        and_then (getitem (raw_proxy item) ''proxy'') (\<lambda>p.
        and_then (validate_proxy_url chk p) (\<lambda>u.
        and_then (getitem (raw_push_url item) ''push_url'') (\<lambda>pu.
          load_targets chk items
            (acc @ [\<lparr>proxy = p, push_url = pu,
                     remark = (case raw_remark item of
                                 Some r \<Rightarrow> if strip r = '''' then None else Some r
                               | None \<Rightarrow> None)\<rparr>])))))"

definition load_config :: "(string \<Rightarrow> string option) \<Rightarrow> raw_config \<Rightarrow> exn + AppConfig" where
  "load_config chk raw =
     and_then (check_required raw required) (\<lambda>u.
     and_then (getitem (raw_targets raw) ''targets'') (\<lambda>items.
     and_then (load_targets chk items []) (\<lambda>ts.
       if ts = [] then Inl (ValueError ''No targets defined'')
       else
         and_then (getitem (raw_test_url raw) ''test_url'') (\<lambda>v1.
         and_then (getitem (raw_expected_status raw) ''expected_status'') (\<lambda>v2.
         and_then (getitem (raw_retries raw) ''retries'') (\<lambda>v3.
         and_then (getitem (raw_timeout_seconds raw) ''timeout_seconds'') (\<lambda>v4.
         and_then (getitem (raw_retry_delay_seconds raw) ''retry_delay_seconds'') (\<lambda>v5.
         and_then (getitem (raw_interval_minutes raw) ''interval_minutes'') (\<lambda>v6.
           Inr \<lparr>test_url = v1, expected_status = v2, retries = v3, timeout_seconds = v4,
                retry_delay_seconds = v5, interval_minutes = v6, targets = ts\<rparr>)))))))))"

subsection \<open>The failure conditions that the specification lists\<close>


definition scheme_allowed :: "string \<Rightarrow> bool" where
  "scheme_allowed url = (lower (url_scheme url) \<in> ALLOWED_PROXY_SCHEMES)"





section \<open>Example inputs\<close>

definition example_target :: ProxyTarget where
  "example_target =
     \<lparr>proxy = ''http://10.0.0.1:8080'', push_url = ''http://kuma/api/push/abc'',
      remark = Some ''edge-1''\<rparr>"

definition example_cfg :: AppConfig where
  "example_cfg =
     \<lparr>test_url = ''http://example.org/'', expected_status = 200, retries = 3,
      timeout_seconds = 10, retry_delay_seconds = 2, interval_minutes = 5,
      targets = [example_target]\<rparr>"

text \<open>Networks: two wrong statuses and then the expected one; one wrong status and then an
  exception; wrong statuses for ever; an exception whose text is \<^verbatim>\<open>FAILED\<close>.\<close>

definition soft_then_ok :: "int \<Rightarrow> probe_io" where
  "soft_then_ok a = (if a < 3 then Completed 503 40 else Completed 200 950)"

definition soft_then_error :: "int \<Rightarrow> probe_io" where
  "soft_then_error a = (if a < 2 then Completed 503 40 else Raised ''timed out'')"

definition always_soft :: "int \<Rightarrow> probe_io" where
  "always_soft a = Completed 503 40"

definition raises_FAILED :: "int \<Rightarrow> probe_io" where
  "raises_FAILED a = Raised ''FAILED''"

text \<open>The check of a bracketed authority part that accepts everything, as the CPython
  releases before 3.11.4 do. None of the example documents has a proxy with both brackets,
  so none of them gets to that check.\<close>

definition no_netloc_check :: "string \<Rightarrow> string option" where
  "no_netloc_check netloc = None"

text \<open>Documents: one that loads; the same with no targets, with an \<^verbatim>\<open>ftp\<close> proxy, with a
  proxy URL whose authority part opens a square bracket and does not close it, and with
  \<^verbatim>\<open>retries\<close> zero.\<close>

definition example_doc :: raw_config where
  "example_doc =
     \<lparr>raw_test_url = Some ''http://example.org/'', raw_expected_status = Some 200,
      raw_retries = Some 3, raw_timeout_seconds = Some 10, raw_retry_delay_seconds = Some 2,
      raw_interval_minutes = Some 5,
      raw_targets = Some [\<lparr>raw_proxy = Some ''http://10.0.0.1:8080'',
                            raw_push_url = Some ''http://kuma/api/push/abc'',
                            raw_remark = Some ''edge-1''\<rparr>]\<rparr>"



definition open_bracket_doc :: raw_config where
  "open_bracket_doc =
     example_doc\<lparr>raw_targets := Some [\<lparr>raw_proxy = Some ''http://['',
                                           raw_push_url = Some ''http://kuma/api/push/abc'',
                                           raw_remark = None\<rparr>]\<rparr>"

definition zero_retries_doc :: raw_config where
  "zero_retries_doc = example_doc\<lparr>raw_retries := Some 0\<rparr>"

text \<open>A cycle over the one example target, and a configuration with no interval.\<close>

definition example_nets :: "nat \<Rightarrow> int \<Rightarrow> probe_io" where
  "example_nets i = soft_then_ok"

definition example_pushes :: "nat \<Rightarrow> push_io" where
  "example_pushes i = PushResponse 200"

definition single_run_cfg :: AppConfig where
  "single_run_cfg = example_cfg\<lparr>interval_minutes := 0\<rparr>"

definition every_cycle_nets :: "nat \<Rightarrow> nat \<Rightarrow> int \<Rightarrow> probe_io" where
  "every_cycle_nets c = example_nets"

definition every_cycle_pushes :: "nat \<Rightarrow> nat \<Rightarrow> push_io" where
  "every_cycle_pushes c = example_pushes"

section \<open>Properties of the proxy tester\<close>

lemma retry_loop_soft_prefix:
  "\<forall>a \<in> set as. soft cfg (net a) \<Longrightarrow>
   retry_loop cfg net prx name (as @ bs) =
     (fst (retry_loop cfg net prx name bs),
      soft_trace cfg prx name as @ snd (retry_loop cfg net prx name bs))"
proof (induction as)
  case Nil
  then show ?case by (simp add: soft_trace_def)
next
  case (Cons a as)
  from Cons.prems obtain s ms where io: "net a = Completed s ms" and ne: "s \<noteq> expected_status cfg"
    by (cases "net a") auto
  from Cons have IH: "retry_loop cfg net prx name (as @ bs) =
     (fst (retry_loop cfg net prx name bs),
      soft_trace cfg prx name as @ snd (retry_loop cfg net prx name bs))"
    by simp
  show ?case
    using io ne by (simp add: IH test_once_def soft_trace_def)
qed

lemma probes_append: "probes (xs @ ys) = probes xs + probes ys"
  by (simp add: probes_def)

lemma delays_append: "delays (xs @ ys) = delays xs @ delays ys"
  by (simp add: delays_def)

lemma probes_soft_trace: "probes (soft_trace cfg prx name as) = length as"
  by (induction as) (simp_all add: soft_trace_def probes_def)

lemma delays_soft_trace:
  "delays (soft_trace cfg prx name as) =
     replicate (length (filter (\<lambda>a. a < retries cfg) as)) (Sleep (retry_delay_seconds cfg))"
  by (induction as) (simp_all add: soft_trace_def delays_def)

lemma probes_Nil: "probes [] = 0"
  by (simp add: probes_def)

lemma probes_Cons: "probes (e # es) = (if is_ProbeGet e then 1 else 0) + probes es"
  by (simp add: probes_def)

lemma delays_Nil: "delays [] = []"
  by (simp add: delays_def)

lemma delays_Cons: "delays (e # es) = (if is_Sleep e then [e] else []) @ delays es"
  by (simp add: delays_def)

lemma filter_below_upto: "1 \<le> r \<Longrightarrow> filter (\<lambda>a. a < r) [1..r] = [1..r - 1]"
proof -
  assume r: "1 \<le> (r::int)"
  have "[1..r] = [1..r - 1] @ [r]" using r by (simp add: upto_rec2)
  moreover have "filter (\<lambda>a. a < r) [1..r - 1] = [1..r - 1]" by (rule filter_True) auto
  ultimately show ?thesis by simp
qed

lemma retry_loop_hard:
  "net k = Raised msg \<Longrightarrow>
   retry_loop cfg net prx name (k # rest) =
     ((False, None, msg),
      [ProbeGet prx (test_url cfg) (timeout_seconds cfg), Log DEBUG (ProxyErrorLine prx msg),
       Log ERROR (ErrorLine name msg)])"
  by (simp add: test_once_def)

lemma retry_loop_success:
  "net k = Completed (expected_status cfg) ms \<Longrightarrow>
   retry_loop cfg net prx name (k # rest) =
     ((True, Some ms, ''OK''),
      [ProbeGet prx (test_url cfg) (timeout_seconds cfg), Log INFO (OkLine name prx k (Some ms))])"
  by (simp add: test_once_def)

text \<open>
  When the attempts before \<open>k\<close> are intermediate failures, the loop gets to attempt
  \<open>k\<close> with their trace behind it.
\<close>

lemma test_with_retries_decisive:
  assumes "1 \<le> k" "k \<le> retries cfg" "\<forall>a \<in> {1..<k}. soft cfg (net a)"
  shows "test_with_retries cfg net prx name =
           (fst (retry_loop cfg net prx name (k # [k + 1..retries cfg])),
            soft_trace cfg prx name [1..k - 1]
            @ snd (retry_loop cfg net prx name (k # [k + 1..retries cfg])))"
proof -
  have split: "[1..retries cfg] = [1..k - 1] @ k # [k + 1..retries cfg]"
    using assms(1,2) by (rule upto_split3)
  have "\<forall>a \<in> set [1..k - 1]. soft cfg (net a)" using assms(3) by auto
  then show ?thesis
    unfolding test_with_retries_def split by (rule retry_loop_soft_prefix)
qed

text \<open>
  Claim C2. A single attempt whose response has the expected status gives
  \<^verbatim>\<open>(True, elapsed_ms, None)\<close>, which the retry loop reads as a success with that
  latency; a response with any other status gives \<^verbatim>\<open>(False, None, None)\<close>, an
  intermediate failure with neither latency nor error text; an exception gives
  \<^verbatim>\<open>(False, None, str(e))\<close>, read as a hard error with that text.
\<close>

theorem test_once_classification:
  "(status_code = expected_status cfg \<longrightarrow>
      fst (test_once cfg prx (Completed status_code ms)) = (True, Some ms, None)
      \<and> outcome (fst (test_once cfg prx (Completed status_code ms))) = Success (Some ms))
   \<and> (status_code \<noteq> expected_status cfg \<longrightarrow>
      fst (test_once cfg prx (Completed status_code ms)) = (False, None, None)
      \<and> outcome (fst (test_once cfg prx (Completed status_code ms))) = SoftFailure)
   \<and> fst (test_once cfg prx (Raised e)) = (False, None, Some e)
   \<and> outcome (fst (test_once cfg prx (Raised e))) = HardError e"
  by (simp add: test_once_def)

theorem test_once_classification_witness:
  "(200 = expected_status example_cfg
      \<and> fst (test_once example_cfg ''http://10.0.0.1:8080'' (Completed 200 950))
          = (True, Some 950, None))
   \<and> (503 \<noteq> expected_status example_cfg
      \<and> outcome (fst (test_once example_cfg ''http://10.0.0.1:8080'' (Completed 503 40)))
          = SoftFailure)
   \<and> outcome (fst (test_once example_cfg ''http://10.0.0.1:8080'' (Raised ''timed out'')))
       = HardError ''timed out''"
  using test_once_classification [of 200 example_cfg "''http://10.0.0.1:8080''" 950 "''timed out''"]
    test_once_classification [of 503 example_cfg "''http://10.0.0.1:8080''" 40 "''timed out''"]
  by (simp add: example_cfg_def)

text \<open>
  When attempt \<open>k\<close> of the budget ends in an exception with text \<open>msg\<close> (the
  attempts before it, if any, having been intermediate failures, or the loop would not
  have got there), \<^verbatim>\<open>test_with_retries\<close> returns the triple \<^verbatim>\<open>(False, None, msg)\<close>
  at once: the trace ends with the ERROR line for \<open>msg\<close> and holds exactly \<open>k\<close>
  probe requests, however many of the \<^verbatim>\<open>retries\<close> attempts remain.
\<close>

lemma retries_stop_at_exception:
  assumes "1 \<le> k" and "k \<le> retries cfg"
    and "\<forall>a \<in> {1..<k}. soft cfg (net a)"
    and "net k = Raised msg"
  shows "fst (test_with_retries cfg net prx name) = (False, None, msg)
       \<and> probes (snd (test_with_retries cfg net prx name)) = nat k
       \<and> snd (test_with_retries cfg net prx name) =
           soft_trace cfg prx name [1..k - 1]
           @ [ProbeGet prx (test_url cfg) (timeout_seconds cfg), Log DEBUG (ProxyErrorLine prx msg),
              Log ERROR (ErrorLine name msg)]"
proof -
  note run = test_with_retries_decisive [OF assms(1-3), of prx name]
  note stop = retry_loop_hard [of net k msg cfg prx name "[k + 1..retries cfg]", OF assms(4)]
  show ?thesis
    unfolding run stop using assms(1)
    by (simp add: probes_append probes_soft_trace probes_Cons probes_Nil)
qed

lemma terminal_of_error_text:
  "msg \<noteq> ''FAILED'' \<Longrightarrow> terminal (False, None, msg) = Down_ERROR msg"
  by simp

text \<open>
  Claim C1. An exception on a probe attempt ends the retry loop at once with no further
  probe, and the result should be the error result with the text of the exception. The
  code returns the text in the same triple as the result of exhausted retries,
  \<^verbatim>\<open>(False, None, "FAILED")\<close>, which \<^verbatim>\<open>check_target\<close> tells from an error by the
  text alone. So with three attempts allowed and a first attempt that raises an exception
  whose text is \<^verbatim>\<open>FAILED\<close>, the loop does stop after one probe and logs the ERROR line,
  but what it returns is the triple of exhausted retries, read as failed and not as an
  error with detail \<^verbatim>\<open>FAILED\<close>.
\<close>

theorem exception_text_FAILED_read_as_exhausted:
  "fst (test_with_retries example_cfg raises_FAILED ''http://10.0.0.1:8080'' ''edge-1'')
     = (False, None, ''FAILED'')
   \<and> terminal (fst (test_with_retries example_cfg raises_FAILED ''http://10.0.0.1:8080'' ''edge-1''))
     = Down_FAILED
   \<and> fst (test_with_retries example_cfg raises_FAILED ''http://10.0.0.1:8080'' ''edge-1'')
     = fst (test_with_retries example_cfg always_soft ''http://10.0.0.1:8080'' ''edge-1'')
   \<and> snd (test_with_retries example_cfg raises_FAILED ''http://10.0.0.1:8080'' ''edge-1'')
     = [ProbeGet ''http://10.0.0.1:8080'' ''http://example.org/'' 10,
        Log DEBUG (ProxyErrorLine ''http://10.0.0.1:8080'' ''FAILED''),
        Log ERROR (ErrorLine ''edge-1'' ''FAILED'')]"
  by (simp add: test_with_retries_def example_cfg_def raises_FAILED_def always_soft_def
        test_once_def upto_rec1)

text \<open>
  Claim C5. With \<^verbatim>\<open>retries\<close> at least 1 and an intermediate failure on every one of
  the \<^verbatim>\<open>retries\<close> attempts, \<^verbatim>\<open>test_with_retries\<close> returns
  \<^verbatim>\<open>(False, None, "FAILED")\<close> after exactly \<^verbatim>\<open>retries\<close> probe requests and exactly
  \<^verbatim>\<open>retries - 1\<close> sleeps, each of \<^verbatim>\<open>retry_delay_seconds\<close>; the last request is followed
  by its WARNING line and the ERROR line only, with no sleep.
\<close>

theorem soft_failures_exhaust_retries:
  assumes "1 \<le> retries cfg" and "\<forall>a \<in> {1..retries cfg}. soft cfg (net a)"
  shows "fst (test_with_retries cfg net prx name) = (False, None, ''FAILED'')
       \<and> probes (snd (test_with_retries cfg net prx name)) = nat (retries cfg)
       \<and> delays (snd (test_with_retries cfg net prx name)) =
           replicate (nat (retries cfg - 1)) (Sleep (retry_delay_seconds cfg))
       \<and> snd (test_with_retries cfg net prx name) =
           soft_trace cfg prx name [1..retries cfg - 1]
           @ [ProbeGet prx (test_url cfg) (timeout_seconds cfg),
              Log WARNING (FailedAttemptLine name prx (retries cfg) (retries cfg)),
              Log ERROR (FailedAfterRetriesLine name prx)]"
proof -
  have all: "\<forall>a \<in> set [1..retries cfg]. soft cfg (net a)" using assms(2) by simp
  have eq: "test_with_retries cfg net prx name =
      ((False, None, ''FAILED''),
       soft_trace cfg prx name [1..retries cfg] @ [Log ERROR (FailedAfterRetriesLine name prx)])"
    unfolding test_with_retries_def
    using retry_loop_soft_prefix [OF all, of prx name "[]"] by simp
  have last: "soft_trace cfg prx name [1..retries cfg] =
      soft_trace cfg prx name [1..retries cfg - 1]
      @ [ProbeGet prx (test_url cfg) (timeout_seconds cfg),
         Log WARNING (FailedAttemptLine name prx (retries cfg) (retries cfg))]"
    using assms(1) by (simp add: upto_rec2 soft_trace_def)
  have d: "delays (soft_trace cfg prx name [1..retries cfg]) =
      replicate (nat (retries cfg - 1)) (Sleep (retry_delay_seconds cfg))"
    using assms(1) by (simp add: delays_soft_trace filter_below_upto)
  have p: "probes (soft_trace cfg prx name [1..retries cfg]) = nat (retries cfg)"
    by (simp add: probes_soft_trace)
  have c1: "fst (test_with_retries cfg net prx name) = (False, None, ''FAILED'')"
    by (simp add: eq)
  have c2: "probes (snd (test_with_retries cfg net prx name)) = nat (retries cfg)"
    by (simp add: eq probes_append p probes_Cons probes_Nil)
  have c3: "delays (snd (test_with_retries cfg net prx name)) =
      replicate (nat (retries cfg - 1)) (Sleep (retry_delay_seconds cfg))"
    by (simp add: eq delays_append d delays_Cons delays_Nil)
  have c4: "snd (test_with_retries cfg net prx name) =
      soft_trace cfg prx name [1..retries cfg - 1]
      @ [ProbeGet prx (test_url cfg) (timeout_seconds cfg),
         Log WARNING (FailedAttemptLine name prx (retries cfg) (retries cfg)),
         Log ERROR (FailedAfterRetriesLine name prx)]"
    by (simp add: eq last)
  from c1 c2 c3 c4 show ?thesis by blast
qed

theorem soft_failures_exhaust_retries_witness:
  "1 \<le> retries example_cfg
   \<and> soft example_cfg (always_soft 1) \<and> soft example_cfg (always_soft 2)
   \<and> soft example_cfg (always_soft 3)
   \<and> fst (test_with_retries example_cfg always_soft ''http://10.0.0.1:8080'' ''edge-1'')
       = (False, None, ''FAILED'')
   \<and> probes (snd (test_with_retries example_cfg always_soft ''http://10.0.0.1:8080'' ''edge-1''))
       = 3
   \<and> delays (snd (test_with_retries example_cfg always_soft ''http://10.0.0.1:8080'' ''edge-1''))
       = [Sleep 2, Sleep 2]"
proof -
  have h1: "1 \<le> retries example_cfg" by (simp add: example_cfg_def)
  have h2: "\<forall>a \<in> {1..retries example_cfg}. soft example_cfg (always_soft a)"
    by (simp add: example_cfg_def always_soft_def)
  have r: "retries example_cfg = 3" "retry_delay_seconds example_cfg = 2"
    by (simp_all add: example_cfg_def)
  have n: "replicate 2 (Sleep 2) = [Sleep 2, Sleep 2]"
    by (simp add: numeral_2_eq_2)
  note t = soft_failures_exhaust_retries [OF h1 h2, of "''http://10.0.0.1:8080''" "''edge-1''"]
  from t have c1:
    "fst (test_with_retries example_cfg always_soft ''http://10.0.0.1:8080'' ''edge-1'')
       = (False, None, ''FAILED'')"
    by blast
  from t have c2:
    "probes (snd (test_with_retries example_cfg always_soft ''http://10.0.0.1:8080'' ''edge-1''))
       = nat (retries example_cfg)"
    by blast
  from t have c3:
    "delays (snd (test_with_retries example_cfg always_soft ''http://10.0.0.1:8080'' ''edge-1''))
       = replicate (nat (retries example_cfg - 1)) (Sleep (retry_delay_seconds example_cfg))"
    by blast
  show ?thesis
    using h1 h2 c1 c2 c3 by (simp add: r n)
qed

text \<open>
  Claim C6. When attempt \<open>k\<close> of the budget is the first to meet the expected status,
  with latency \<open>ms\<close>, the attempts before it having been intermediate failures,
  \<^verbatim>\<open>test_with_retries\<close> returns \<^verbatim>\<open>(True, ms, "OK")\<close> at once, after exactly \<open>k\<close>
  probe requests and with the INFO line last in the trace; \<open>k = retries\<close> is the case of a
  success on the last attempt, with exactly \<^verbatim>\<open>retries\<close> requests.
\<close>

theorem success_ends_retries:
  assumes "1 \<le> k" and "k \<le> retries cfg"
    and "\<forall>a \<in> {1..<k}. soft cfg (net a)"
    and "net k = Completed (expected_status cfg) ms"
  shows "fst (test_with_retries cfg net prx name) = (True, Some ms, ''OK'')
       \<and> probes (snd (test_with_retries cfg net prx name)) = nat k
       \<and> snd (test_with_retries cfg net prx name) =
           soft_trace cfg prx name [1..k - 1]
           @ [ProbeGet prx (test_url cfg) (timeout_seconds cfg),
              Log INFO (OkLine name prx k (Some ms))]"
proof -
  note run = test_with_retries_decisive [OF assms(1-3), of prx name]
  note stop = retry_loop_success [of net k cfg ms prx name "[k + 1..retries cfg]", OF assms(4)]
  show ?thesis
    unfolding run stop using assms(1)
    by (simp add: probes_append probes_soft_trace probes_Cons probes_Nil)
qed

theorem success_ends_retries_witness:
  "1 \<le> retries example_cfg \<and> retries example_cfg \<le> retries example_cfg
   \<and> soft example_cfg (soft_then_ok 1) \<and> soft example_cfg (soft_then_ok 2)
   \<and> soft_then_ok (retries example_cfg) = Completed (expected_status example_cfg) 950
   \<and> fst (test_with_retries example_cfg soft_then_ok ''http://10.0.0.1:8080'' ''edge-1'')
       = (True, Some 950, ''OK'')
   \<and> probes (snd (test_with_retries example_cfg soft_then_ok ''http://10.0.0.1:8080'' ''edge-1''))
       = 3"
proof -
  have h1: "1 \<le> retries example_cfg" by (simp add: example_cfg_def)
  have h2: "retries example_cfg \<le> retries example_cfg" by simp
  have h3: "\<forall>a \<in> {1..<retries example_cfg}. soft example_cfg (soft_then_ok a)"
    by (simp add: example_cfg_def soft_then_ok_def)
  have h4: "soft_then_ok (retries example_cfg) = Completed (expected_status example_cfg) 950"
    by (simp add: example_cfg_def soft_then_ok_def)
  have r: "retries example_cfg = 3" by (simp add: example_cfg_def)
  note t = success_ends_retries [OF h1 h2 h3 h4, of "''http://10.0.0.1:8080''" "''edge-1''"]
  from t have c1:
    "fst (test_with_retries example_cfg soft_then_ok ''http://10.0.0.1:8080'' ''edge-1'')
       = (True, Some 950, ''OK'')"
    by blast
  from t have c2:
    "probes (snd (test_with_retries example_cfg soft_then_ok ''http://10.0.0.1:8080'' ''edge-1''))
       = nat (retries example_cfg)"
    by blast
  show ?thesis
    using h1 h2 h3 h4 c1 c2 by (simp add: r)
qed

section \<open>Properties of the notifier and of a cycle\<close>

lemma retry_loop_no_push: "filter is_PushGet (snd (retry_loop cfg net prx name as)) = []"
proof (induction as)
  case Nil
  show ?case by simp
next
  case (Cons a as)
  obtain res tr where r: "retry_loop cfg net prx name as = (res, tr)"
    by (cases "retry_loop cfg net prx name as") auto
  with Cons have tr: "filter is_PushGet tr = []" by simp
  show ?case
  proof (cases "net a")
    case (Completed s ms)
    then show ?thesis by (simp add: test_once_def r tr)
  next
    case (Raised e)
    then show ?thesis by (simp add: test_once_def)
  qed
qed

lemma send_result: "fst (send url status message ping io) = Inr ()"
  by (simp add: send_def Let_def split: prod.splits sum.splits)

lemma send_trace:
  "snd (send url status message ping io) =
     PushGet url [(''status'', PStr status), (''msg'', PStr message),
                  (''ping'', case ping of Some p \<Rightarrow> PInt p | None \<Rightarrow> PStr '''')]
     # (case io of
          PushRaised e \<Rightarrow> [Log ERROR (PushFailedLine (ClientError e))]
        | PushResponse c \<Rightarrow>
            if 200 \<le> c \<and> c \<le> 299 then [Log INFO (PushSentLine status)]
            else [Log ERROR (PushFailedLine (HTTPStatusError c))])"
  by (cases io) (simp_all add: send_def send_try_def raise_for_status_def)

lemma check_target_result: "fst (check_target cfg net pio target) = Inr ()"
  by (simp add: check_target_def case_prod_beta send_result)

lemma first_raised_map: "(\<And>x. f x = Inr ()) \<Longrightarrow> first_raised (map f xs) = Inr ()"
  by (induction xs) simp_all

lemma run_cycle_result: "fst (run_cycle cfg net push) = Inr ()"
  by (simp add: run_cycle_def Let_def first_raised_map check_target_result)

lemma check_target_trace:
  "snd (check_target cfg net pio target) =
     snd (test_with_retries cfg net (proxy target) (target_identifier target))
     @ snd (send (push_url target)
              (if fst (fst (test_with_retries cfg net (proxy target) (target_identifier target)))
               then ''up'' else ''down'')
              (final_message (target_identifier target)
                 (fst (test_with_retries cfg net (proxy target) (target_identifier target))))
              (if fst (fst (test_with_retries cfg net (proxy target) (target_identifier target)))
               then fst (snd (fst (test_with_retries cfg net (proxy target) (target_identifier target))))
               else None)
              pio)"
  by (simp add: check_target_def case_prod_beta)

lemma send_one_push:
  "filter is_PushGet (snd (send url status message ping io)) =
     [PushGet url [(''status'', PStr status), (''msg'', PStr message),
                   (''ping'', case ping of Some p \<Rightarrow> PInt p | None \<Rightarrow> PStr '''')]]"
  unfolding send_trace by (cases io) simp_all

lemma check_target_one_push:
  "filter is_PushGet (snd (check_target cfg net pio target)) =
     [PushGet (push_url target)
        [(''status'',
          PStr (if fst (fst (test_with_retries cfg net (proxy target) (target_identifier target)))
                then ''up'' else ''down'')),
         (''msg'',
          PStr (final_message (target_identifier target)
                  (fst (test_with_retries cfg net (proxy target) (target_identifier target))))),
         (''ping'',
          case (if fst (fst (test_with_retries cfg net (proxy target) (target_identifier target)))
                then fst (snd (fst (test_with_retries cfg net (proxy target) (target_identifier target))))
                else None) of
            Some p \<Rightarrow> PInt p | None \<Rightarrow> PStr '''')]]"
proof -
  have "filter is_PushGet (snd (test_with_retries cfg net (proxy target) (target_identifier target))) = []"
    by (simp add: test_with_retries_def retry_loop_no_push)
  then show ?thesis
    unfolding check_target_trace by (simp only: filter_append send_one_push append_Nil)
qed

lemma run_cycle_length: "length (snd (run_cycle cfg net push)) = length (targets cfg)"
  by (simp add: run_cycle_def Let_def)

lemma run_cycle_nth:
  "i < length (targets cfg) \<Longrightarrow>
     snd (run_cycle cfg net push) ! i = snd (check_target cfg (net i) (push i) (targets cfg ! i))"
  by (simp add: run_cycle_def Let_def)


text \<open>The message and the ping of every terminal result but the error whose text is
  \<^verbatim>\<open>FAILED\<close>.\<close>

lemma final_message_by_result:
  "final_message ident (True, Some ms, message) = ''OK : '' @ ident @ '' : OK ('' @ str_int ms @ '' ms)''"
  "final_message ident (False, ping, ''FAILED'') = ''FAILED : '' @ ident @ '' : FAILED''"
  "detail \<noteq> ''FAILED'' \<Longrightarrow>
     final_message ident (False, ping, detail) = ''ERROR : '' @ ident @ '' : '' @ detail"
  by (simp_all add: final_message_def)

text \<open>
  Claim C3. The message, status and ping handed to the notifier follow the table for a
  success and for exhausted retries, and for an error with any detail but one. The code
  does not do what the claim says for an error whose detail is the text \<^verbatim>\<open>FAILED\<close>:
  with a first attempt that raises an exception of that text, the one push request of the
  target carries the message \<^verbatim>\<open>FAILED : edge-1 : FAILED\<close>, where the claim has
  \<^verbatim>\<open>ERROR : edge-1 : FAILED\<close>, although the ERROR line has been logged just before.
\<close>

theorem exception_text_FAILED_reported_as_FAILED:
  "snd (check_target example_cfg raises_FAILED (PushResponse 200) example_target)
     = [ProbeGet ''http://10.0.0.1:8080'' ''http://example.org/'' 10,
        Log DEBUG (ProxyErrorLine ''http://10.0.0.1:8080'' ''FAILED''),
        Log ERROR (ErrorLine ''edge-1'' ''FAILED''),
        PushGet ''http://kuma/api/push/abc''
          [(''status'', PStr ''down''), (''msg'', PStr ''FAILED : edge-1 : FAILED''),
           (''ping'', PStr '''')],
        Log INFO (PushSentLine ''down'')]"
  by (simp add: check_target_def test_with_retries_def example_cfg_def example_target_def
        raises_FAILED_def target_identifier_def strip_def py_isspace_def final_message_def
        send_def send_try_def raise_for_status_def test_once_def upto_rec1)

text \<open>
  Claim C4. A cycle gives one trace per configured target, the trace of
  \<^verbatim>\<open>check_target\<close> on that target, and each of these traces holds exactly one push
  request: the one to the target's \<^verbatim>\<open>push_url\<close>, with the status, message and ping of
  the one result that \<^verbatim>\<open>test_with_retries\<close> returned for the target, whatever the
  network answered and however many attempts were made.
\<close>

theorem one_report_per_target:
  "length (snd (run_cycle cfg net push)) = length (targets cfg)
   \<and> (\<forall>i < length (targets cfg).
         snd (run_cycle cfg net push) ! i
           = snd (check_target cfg (net i) (push i) (targets cfg ! i))
         \<and> filter is_PushGet (snd (run_cycle cfg net push) ! i) =
             [PushGet (push_url (targets cfg ! i))
                [(''status'',
                  PStr (if fst (fst (test_with_retries cfg (net i) (proxy (targets cfg ! i))
                                       (target_identifier (targets cfg ! i))))
                        then ''up'' else ''down'')),
                 (''msg'',
                  PStr (final_message (target_identifier (targets cfg ! i))
                          (fst (test_with_retries cfg (net i) (proxy (targets cfg ! i))
                                  (target_identifier (targets cfg ! i)))))),
                 (''ping'',
                  case (if fst (fst (test_with_retries cfg (net i) (proxy (targets cfg ! i))
                                       (target_identifier (targets cfg ! i))))
                        then fst (snd (fst (test_with_retries cfg (net i) (proxy (targets cfg ! i))
                                              (target_identifier (targets cfg ! i)))))
                        else None) of
                    Some p \<Rightarrow> PInt p | None \<Rightarrow> PStr '''')]])"
proof (intro conjI allI impI)
  show "length (snd (run_cycle cfg net push)) = length (targets cfg)"
    by (rule run_cycle_length)
next
  fix i assume "i < length (targets cfg)"
  then show "snd (run_cycle cfg net push) ! i
      = snd (check_target cfg (net i) (push i) (targets cfg ! i))"
    by (rule run_cycle_nth)
next
  fix i assume i: "i < length (targets cfg)"
  show "filter is_PushGet (snd (run_cycle cfg net push) ! i) =
             [PushGet (push_url (targets cfg ! i))
                [(''status'',
                  PStr (if fst (fst (test_with_retries cfg (net i) (proxy (targets cfg ! i))
                                       (target_identifier (targets cfg ! i))))
                        then ''up'' else ''down'')),
                 (''msg'',
                  PStr (final_message (target_identifier (targets cfg ! i))
                          (fst (test_with_retries cfg (net i) (proxy (targets cfg ! i))
                                  (target_identifier (targets cfg ! i)))))),
                 (''ping'',
                  case (if fst (fst (test_with_retries cfg (net i) (proxy (targets cfg ! i))
                                       (target_identifier (targets cfg ! i))))
                        then fst (snd (fst (test_with_retries cfg (net i) (proxy (targets cfg ! i))
                                              (target_identifier (targets cfg ! i)))))
                        else None) of
                    Some p \<Rightarrow> PInt p | None \<Rightarrow> PStr '''')]]"
    unfolding run_cycle_nth [OF i] by (rule check_target_one_push)
qed

theorem one_report_per_target_witness:
  "length (snd (run_cycle example_cfg example_nets example_pushes)) = 1
   \<and> filter is_PushGet (snd (run_cycle example_cfg example_nets example_pushes) ! 0) =
       [PushGet ''http://kuma/api/push/abc''
          [(''status'', PStr ''up''), (''msg'', PStr ''OK : edge-1 : OK (950 ms)''),
           (''ping'', PInt 950)]]"
proof -
  have l: "length (targets example_cfg) = 1" "targets example_cfg ! 0 = example_target"
    by (simp_all add: example_cfg_def)
  have t: "target_identifier example_target = ''edge-1''"
    "proxy example_target = ''http://10.0.0.1:8080''"
    "push_url example_target = ''http://kuma/api/push/abc''"
    by (simp_all add: target_identifier_def example_target_def strip_def py_isspace_def)
  have r: "fst (test_with_retries example_cfg soft_then_ok ''http://10.0.0.1:8080'' ''edge-1'')
      = (True, Some 950, ''OK'')"
    by (simp add: test_with_retries_def example_cfg_def soft_then_ok_def test_once_def upto_rec1)
  have m: "final_message ''edge-1'' (True, Some 950, ''OK'') = ''OK : edge-1 : OK (950 ms)''"
    by (simp add: final_message_def str_int_def digits.simps)
  have z: "0 < length (targets example_cfg)" by (simp add: l)
  note T = one_report_per_target [of example_cfg example_nets example_pushes]
  note c1 = conjunct1 [OF T]
  note c2 = conjunct2 [OF mp [OF spec [OF conjunct2 [OF T], of 0] z]]
  show ?thesis
    using c1 c2 by (simp add: l t r m example_nets_def)
qed

text \<open>
  Claim C8. \<^verbatim>\<open>send\<close> never raises to its caller: whatever the push request does, an
  exception or a response of any status, the call returns; a failed delivery (an exception,
  or a status outside 200 to 299) leaves the ERROR line in the trace and nothing else, and
  neither \<^verbatim>\<open>check_target\<close> nor the cycle raises. The \<^verbatim>\<open>ping\<close> parameter of the
  request is the integer when there is one and the empty string otherwise.
\<close>

theorem send_never_raises:
  "fst (send url status message ping io) = Inr ()
   \<and> snd (send url status message ping io) =
       PushGet url [(''status'', PStr status), (''msg'', PStr message),
                    (''ping'', case ping of Some p \<Rightarrow> PInt p | None \<Rightarrow> PStr '''')]
       # (case io of
            PushRaised e \<Rightarrow> [Log ERROR (PushFailedLine (ClientError e))]
          | PushResponse c \<Rightarrow>
              if 200 \<le> c \<and> c \<le> 299 then [Log INFO (PushSentLine status)]
              else [Log ERROR (PushFailedLine (HTTPStatusError c))])
   \<and> fst (check_target cfg net io target) = Inr ()
   \<and> fst (run_cycle cfg nets pushes) = Inr ()"
  by (simp only: send_result send_trace check_target_result run_cycle_result simp_thms)

theorem send_never_raises_witness:
  "fst (send ''http://kuma/api/push/abc'' ''down'' ''FAILED : edge-1 : FAILED'' None
          (PushResponse 503)) = Inr ()
   \<and> snd (send ''http://kuma/api/push/abc'' ''down'' ''FAILED : edge-1 : FAILED'' None
          (PushResponse 503))
       = [PushGet ''http://kuma/api/push/abc''
            [(''status'', PStr ''down''), (''msg'', PStr ''FAILED : edge-1 : FAILED''),
             (''ping'', PStr '''')],
          Log ERROR (PushFailedLine (HTTPStatusError 503))]
   \<and> snd (send ''http://kuma/api/push/abc'' ''up'' ''OK : edge-1 : OK (950 ms)'' (Some 950)
          (PushRaised ''connection refused''))
       = [PushGet ''http://kuma/api/push/abc''
            [(''status'', PStr ''up''), (''msg'', PStr ''OK : edge-1 : OK (950 ms)''),
             (''ping'', PInt 950)],
          Log ERROR (PushFailedLine (ClientError ''connection refused''))]"
  using send_never_raises [of "''http://kuma/api/push/abc''" "''down''"
      "''FAILED : edge-1 : FAILED''" None "PushResponse 503"]
    send_never_raises [of "''http://kuma/api/push/abc''" "''up''"
      "''OK : edge-1 : OK (950 ms)''" "Some 950" "PushRaised ''connection refused''"]
  by simp

text \<open>
  Claim C9. With \<^verbatim>\<open>interval_minutes\<close> zero or negative, \<^verbatim>\<open>run\<close> returns after
  one cycle, whatever the \<^verbatim>\<open>run_once\<close> flag: its trace is the line that starts the
  cycle and that one cycle, with no sleep between cycles.
\<close>

theorem nonpositive_interval_runs_once:
  assumes "interval_minutes cfg \<le> 0"
  shows "run cfg run_once net push =
           Some (Inr (), [RunLog INFO StartingCycleLine, Cycle (snd (run_cycle cfg (net 0) (push 0)))])"
proof -
  obtain trs where c: "run_cycle cfg (net 0) (push 0) = (Inr (), trs)"
    using run_cycle_result [of cfg "net 0" "push 0"] by (cases "run_cycle cfg (net 0) (push 0)") auto
  show ?thesis
    unfolding run_def by (subst run_from.simps) (simp add: c assms)
qed

theorem nonpositive_interval_runs_once_witness:
  "interval_minutes single_run_cfg \<le> 0
   \<and> run single_run_cfg False every_cycle_nets every_cycle_pushes =
       Some (Inr (), [RunLog INFO StartingCycleLine,
                      Cycle (snd (run_cycle single_run_cfg (every_cycle_nets 0) (every_cycle_pushes 0)))])"
proof -
  have h: "interval_minutes single_run_cfg \<le> 0"
    by (simp add: single_run_cfg_def)
  show ?thesis
    using h nonpositive_interval_runs_once [OF h, of False every_cycle_nets every_cycle_pushes]
    by simp
qed

section \<open>Properties of config loading\<close>






lemma check_required_missing:
  "list_ex (\<lambda>key. \<not> has_key raw key) keys \<Longrightarrow> \<exists>m. check_required raw keys = Inl (ValueError m)"
  by (induction keys) auto

lemma check_required_present:
  "\<not> list_ex (\<lambda>key. \<not> has_key raw key) keys \<Longrightarrow> check_required raw keys = Inr ()"
  by (induction keys) auto

lemma all_required_present:
  "\<not> list_ex (\<lambda>key. \<not> has_key raw key) required \<longleftrightarrow>
     raw_test_url raw \<noteq> None \<and> raw_expected_status raw \<noteq> None \<and> raw_retries raw \<noteq> None
     \<and> raw_timeout_seconds raw \<noteq> None \<and> raw_retry_delay_seconds raw \<noteq> None
     \<and> raw_interval_minutes raw \<noteq> None \<and> raw_targets raw \<noteq> None"
  by (simp add: required_def has_key_def)

lemma load_config_missing:
  "list_ex (\<lambda>key. \<not> has_key raw key) required \<Longrightarrow> \<exists>m. load_config chk raw = Inl (ValueError m)"
  using check_required_missing [of raw required]
  by (auto simp: load_config_def and_then_def)

lemma load_config_present:
  assumes "raw_test_url raw = Some v1" "raw_expected_status raw = Some v2"
    "raw_retries raw = Some v3" "raw_timeout_seconds raw = Some v4"
    "raw_retry_delay_seconds raw = Some v5" "raw_interval_minutes raw = Some v6"
    "raw_targets raw = Some items"
  shows "load_config chk raw =
           and_then (load_targets chk items []) (\<lambda>ts.
             if ts = [] then Inl (ValueError ''No targets defined'')
             else Inr \<lparr>test_url = v1, expected_status = v2, retries = v3, timeout_seconds = v4,
                       retry_delay_seconds = v5, interval_minutes = v6, targets = ts\<rparr>)"
proof -
  have "\<not> list_ex (\<lambda>key. \<not> has_key raw key) required"
    by (simp add: all_required_present assms)
  then have "check_required raw required = Inr ()" by (rule check_required_present)
  then show ?thesis
    by (cases "load_targets chk items []") (simp_all add: load_config_def and_then_def getitem_def assms)
qed



lemma list_ex_disj: "list_ex (\<lambda>x. P x \<or> Q x) xs \<longleftrightarrow> list_ex P xs \<or> list_ex Q xs"
  by (induction xs) auto








text \<open>The definitions that evaluate the URL parser on a given string.\<close>

lemmas url_defs = urlparse_def url_scheme_def split_scheme_def url_clean_def splitnetloc_def
  lower_def lower_char_def ascii_alpha_def scheme_chars_def scheme_allowed_def
  no_netloc_check_def
  ALLOWED_PROXY_SCHEMES_def validate_proxy_url_def Let_def

text \<open>The unmatched bracket stops the parser before any release's check of a bracketed
  authority part, so the document is refused whatever that check is.\<close>

lemma open_bracket_rejected_any_check:
  "load_config chk open_bracket_doc = Inl (ValueError ''Invalid IPv6 URL'')"
  by (simp add: load_config_def required_def has_key_def and_then_def getitem_def
        open_bracket_doc_def example_doc_def url_defs)




text \<open>
  Claim C10. \<^verbatim>\<open>load_config\<close> does not look at the value of \<^verbatim>\<open>retries\<close>: a document
  that loads still loads when its \<^verbatim>\<open>retries\<close> is replaced by any integer, zero and the
  negative ones included, and the configuration differs in \<^verbatim>\<open>retries\<close> only. With
  \<^verbatim>\<open>retries\<close> zero or negative the loop body never runs: \<^verbatim>\<open>test_with_retries\<close> makes
  no probe request and no sleep and returns the triple of exhausted retries, and
  \<^verbatim>\<open>check_target\<close> pushes status \<^verbatim>\<open>down\<close> with the message of a failed target.
\<close>

theorem retries_not_checked:
  "(load_config chk raw = Inr cfg \<longrightarrow>
      load_config chk (raw\<lparr>raw_retries := Some r\<rparr>) = Inr (cfg\<lparr>retries := r\<rparr>))
   \<and> (retries cfg \<le> 0 \<longrightarrow>
      test_with_retries cfg net prx name =
        ((False, None, ''FAILED''), [Log ERROR (FailedAfterRetriesLine name prx)])
      \<and> snd (check_target cfg net pio target) =
          Log ERROR (FailedAfterRetriesLine (target_identifier target) (proxy target))
          # snd (send (push_url target) ''down''
                   (''FAILED : '' @ target_identifier target @ '' : FAILED'') None pio))"
proof (intro conjI impI)
  assume ok: "load_config chk raw = Inr cfg"
  have present: "\<not> list_ex (\<lambda>key. \<not> has_key raw key) required"
  proof
    assume "list_ex (\<lambda>key. \<not> has_key raw key) required"
    then obtain m where "load_config chk raw = Inl (ValueError m)"
      using load_config_missing by blast
    with ok show False by simp
  qed
  then have p:
    "raw_test_url raw \<noteq> None" "raw_expected_status raw \<noteq> None" "raw_retries raw \<noteq> None"
    "raw_timeout_seconds raw \<noteq> None" "raw_retry_delay_seconds raw \<noteq> None"
    "raw_interval_minutes raw \<noteq> None" "raw_targets raw \<noteq> None"
    unfolding all_required_present by blast+
  from p obtain v1 v2 v3 v4 v5 v6 items where f:
    "raw_test_url raw = Some v1" "raw_expected_status raw = Some v2"
    "raw_retries raw = Some v3" "raw_timeout_seconds raw = Some v4"
    "raw_retry_delay_seconds raw = Some v5" "raw_interval_minutes raw = Some v6"
    "raw_targets raw = Some items"
    by blast
  note before = load_config_present [OF f]
  have after: "load_config chk (raw\<lparr>raw_retries := Some r\<rparr>) =
      and_then (load_targets chk items []) (\<lambda>ts.
        if ts = [] then Inl (ValueError ''No targets defined'')
        else Inr \<lparr>test_url = v1, expected_status = v2, retries = r, timeout_seconds = v4,
                  retry_delay_seconds = v5, interval_minutes = v6, targets = ts\<rparr>)"
    by (rule load_config_present) (simp_all add: f)
  show "load_config chk (raw\<lparr>raw_retries := Some r\<rparr>) = Inr (cfg\<lparr>retries := r\<rparr>)"
  proof (cases "load_targets chk items []")
    case (Inl e)
    with ok before show ?thesis by (simp add: and_then_def)
  next
    case (Inr ts)
    with ok before have "ts \<noteq> []" by (auto simp: and_then_def)
    with ok before Inr have "cfg = \<lparr>test_url = v1, expected_status = v2, retries = v3,
        timeout_seconds = v4, retry_delay_seconds = v5, interval_minutes = v6, targets = ts\<rparr>"
      by (simp add: and_then_def)
    with \<open>ts \<noteq> []\<close> Inr show ?thesis by (simp add: after and_then_def)
  qed
next
  assume z: "retries cfg \<le> 0"
  then show "test_with_retries cfg net prx name =
        ((False, None, ''FAILED''), [Log ERROR (FailedAfterRetriesLine name prx)])"
    by (simp add: test_with_retries_def)
next
  assume z: "retries cfg \<le> 0"
  then have t: "test_with_retries cfg net (proxy target) (target_identifier target) =
        ((False, None, ''FAILED''),
         [Log ERROR (FailedAfterRetriesLine (target_identifier target) (proxy target))])"
    by (simp add: test_with_retries_def)
  show "snd (check_target cfg net pio target) =
          Log ERROR (FailedAfterRetriesLine (target_identifier target) (proxy target))
          # snd (send (push_url target) ''down''
                   (''FAILED : '' @ target_identifier target @ '' : FAILED'') None pio)"
    by (simp add: check_target_def t final_message_def case_prod_beta)
qed

theorem retries_not_checked_witness:
  "load_config no_netloc_check example_doc = Inr example_cfg
   \<and> load_config no_netloc_check zero_retries_doc = Inr (example_cfg\<lparr>retries := 0\<rparr>)
   \<and> retries (example_cfg\<lparr>retries := 0\<rparr>) \<le> 0
   \<and> test_with_retries (example_cfg\<lparr>retries := 0\<rparr>) soft_then_ok ''http://10.0.0.1:8080'' ''edge-1''
       = ((False, None, ''FAILED''),
          [Log ERROR (FailedAfterRetriesLine ''edge-1'' ''http://10.0.0.1:8080'')])"
proof -
  have a: "load_config no_netloc_check example_doc = Inr example_cfg"
    by (simp add: load_config_def required_def has_key_def and_then_def getitem_def
          example_doc_def example_cfg_def example_target_def strip_def py_isspace_def url_defs)
  have z: "retries (example_cfg\<lparr>retries := 0\<rparr>) \<le> 0" by simp
  note first = mp [OF conjunct1 [OF retries_not_checked [of no_netloc_check example_doc example_cfg 0]] a]
  note second = conjunct1 [OF mp [OF conjunct2 [OF retries_not_checked
      [of _ _ "example_cfg\<lparr>retries := 0\<rparr>" _ soft_then_ok "''http://10.0.0.1:8080''" "''edge-1''"]] z]]
  show ?thesis
    unfolding zero_retries_doc_def using a z first second by blast
qed


end
